theory Spec2Isabelle
  imports Complex_Main "HOL-Library.Multiset"
begin

section \<open>Data model\<close>

text \<open>
  The documents handled by the two scripts are JSON-shaped Python dictionaries. Fields
  whose content the scripts pass through without inspecting it (the assertion, the issue
  list and the difficulty, which in the external strategy are whatever the decoded
  response holds) are kept as JSON values.
\<close>

datatype json =
    JNull
  | JBool bool
  | JNum rat
  | JStr string
  | JArr "json list"
  | JObj "(string \<times> json) list"

record ground_truth =
  verdict :: bool
  expected_issues :: json

record metadata =
  category :: string
  difficulty :: json
  created_at :: string

record example =
  id_ex :: string
  screenshot_path :: string
  assertion :: json
  ground_truth :: ground_truth
  metadata :: metadata

record dataset =
  version :: string
  created_at_ds :: string
  total_examples_ds :: int
  examples :: "example list"

record prediction =
  example_id :: string
  predicted_verdict :: bool

record results =
  predictions :: "prediction list"

text \<open>
  The evaluation report. The four rates are Python floats in the source; they are modelled
  by the exact rational each float is the rounding of.
\<close>

record report =
  accuracy :: rat
  precision :: rat
  recall :: rat
  f1_score :: rat
  true_positives :: int
  false_positives :: int
  true_negatives :: int
  false_negatives :: int
  total_examples :: int

text \<open>
  The exceptions that the modelled statements can raise: \<^verbatim>\<open>ValueError\<close> from unpacking
  a sequence of the wrong length, \<^verbatim>\<open>KeyError\<close> from subscripting a dictionary with a
  key it does not hold.
\<close>

datatype error = ValueError | KeyError

section \<open>Benchmark evaluator (\<open>scripts/evaluate_vision_accuracy.py\<close>)\<close>

subsection \<open>The join of dataset examples and predictions\<close>

text \<open>
  \<^verbatim>\<open>next((r for r in results['predictions'] if r['example_id'] == example_id), None)\<close>:
  the first prediction, in list order, that carries the given identifier.
\<close>

fun next_match :: "prediction list \<Rightarrow> string \<Rightarrow> prediction option" where
  "next_match [] eid = None"
| "next_match (r # rs) eid = (if example_id r = eid then Some r else next_match rs eid)"

text \<open>
  The loop over \<^verbatim>\<open>dataset['examples']\<close>, with the two accumulators \<^verbatim>\<open>y_true\<close> and
  \<^verbatim>\<open>y_pred\<close>; an example without a prediction takes the \<^verbatim>\<open>continue\<close> branch.
\<close>

fun join_loop ::
  "example list \<Rightarrow> prediction list \<Rightarrow> bool list \<times> bool list \<Rightarrow> bool list \<times> bool list" where
  "join_loop [] ps acc = acc"
| "join_loop (e # es) ps (y_true, y_pred) =
     (case next_match ps (id_ex e) of
        None \<Rightarrow> join_loop es ps (y_true, y_pred)
      | Some r \<Rightarrow>
          join_loop es ps (y_true @ [verdict (ground_truth e)], y_pred @ [predicted_verdict r]))"

subsection \<open>The metrics library\<close>

text \<open>
  The five functions imported from \<^verbatim>\<open>sklearn.metrics\<close>, on two equally long lists of
  booleans, as the library documents them. The scores count on the pairs directly, with
  \<^verbatim>\<open>True\<close> as the positive label; \<^verbatim>\<open>zero_division=0\<close> decides a quotient whose
  denominator is zero.
\<close>

definition count_pairs :: "bool \<Rightarrow> bool \<Rightarrow> bool list \<Rightarrow> bool list \<Rightarrow> nat" where
  "count_pairs t p y_true y_pred = length (filter (\<lambda>(a, b). a = t \<and> b = p) (zip y_true y_pred))"

definition accuracy_score :: "bool list \<Rightarrow> bool list \<Rightarrow> rat" where
  "accuracy_score y_true y_pred =
     of_nat (length (filter (\<lambda>(a, b). a = b) (zip y_true y_pred))) / of_nat (length y_true)"

definition zero_division :: "nat \<Rightarrow> nat \<Rightarrow> rat" where
  "zero_division num den = (if den = 0 then 0 else of_nat num / of_nat den)"

definition precision_score :: "bool list \<Rightarrow> bool list \<Rightarrow> rat" where
  "precision_score y_true y_pred =
     zero_division (count_pairs True True y_true y_pred)
       (count_pairs True True y_true y_pred + count_pairs False True y_true y_pred)"

definition recall_score :: "bool list \<Rightarrow> bool list \<Rightarrow> rat" where
  "recall_score y_true y_pred =
     zero_division (count_pairs True True y_true y_pred)
       (count_pairs True True y_true y_pred + count_pairs True False y_true y_pred)"

definition f1_score_fn :: "bool list \<Rightarrow> bool list \<Rightarrow> rat" where
  "f1_score_fn y_true y_pred =
     (let p = precision_score y_true y_pred; r = recall_score y_true y_pred
      in if p + r = 0 then 0 else 2 * p * r / (p + r))"

text \<open>
  \<^verbatim>\<open>confusion_matrix(y_true, y_pred)\<close> is called without \<^verbatim>\<open>labels\<close>: the library then
  takes as labels the sorted distinct values that occur in \<^verbatim>\<open>y_true\<close> or \<^verbatim>\<open>y_pred\<close>, and
  returns the square matrix over these labels, rows indexed by the true label and columns
  by the predicted one. \<^verbatim>\<open>ravel\<close> flattens it row by row.
\<close>

definition unique_labels :: "bool list \<Rightarrow> bool list \<Rightarrow> bool list" where
  "unique_labels y_true y_pred = filter (\<lambda>l. l \<in> set y_true \<union> set y_pred) [False, True]"

definition confusion_matrix :: "bool list \<Rightarrow> bool list \<Rightarrow> int list list" where
  "confusion_matrix y_true y_pred =
     (let labels = unique_labels y_true y_pred
      in map (\<lambda>t. map (\<lambda>p. int (count_pairs t p y_true y_pred)) labels) labels)"

definition ravel :: "int list list \<Rightarrow> int list" where
  "ravel cm = concat cm"

subsection \<open>\<open>evaluate_results\<close>\<close>

text \<open>
  The unpacking \<^verbatim>\<open>tn, fp, fn, tp = cm.ravel()\<close> raises \<^verbatim>\<open>ValueError\<close> unless the
  flattened matrix has exactly four entries.
\<close>

definition evaluate_results :: "dataset \<Rightarrow> results \<Rightarrow> error + report" where
  "evaluate_results ds rs =
     (let (y_true, y_pred) = join_loop (examples ds) (predictions rs) ([], [])
      in if length y_true = 0 then
           Inr \<lparr> accuracy = 0, precision = 0, recall = 0, f1_score = 0,
                 true_positives = 0, false_positives = 0, true_negatives = 0,
                 false_negatives = 0, total_examples = 0 \<rparr>
         else
           let accuracy = accuracy_score y_true y_pred;
               precision = precision_score y_true y_pred;
               recall = recall_score y_true y_pred;
               f1 = f1_score_fn y_true y_pred;
               cm = confusion_matrix y_true y_pred
           in case ravel cm of
                [tn, fp, fn, tp] \<Rightarrow>
                  Inr \<lparr> accuracy = accuracy, precision = precision, recall = recall,
                        f1_score = f1, true_positives = tp, false_positives = fp,
                        true_negatives = tn, false_negatives = fn,
                        total_examples = int (length y_true) \<rparr>
              | _ \<Rightarrow> Inl ValueError)"

section \<open>Dataset synthesizer (\<open>scripts/create_benchmark_dataset.py\<close>)\<close>

text \<open>
  A dictionary appended to the list of examples is an example or, in the \<^verbatim>\<open>else\<close> branch
  of \<^verbatim>\<open>generate_mock_example\<close>, the empty dictionary \<^verbatim>\<open>{}\<close>, which is \<open>None\<close> here.
\<close>

type_synonym entry = "example option"

definition categories :: "string list" where
  "categories = [''accessibility'', ''layout'', ''responsiveness'', ''ux-dark-patterns'', ''security'']"

text \<open>The table \<^verbatim>\<open>mock_data\<close> of \<^verbatim>\<open>generate_mock_examples\<close>, in the order of the source.\<close>

record mock_entry =
  assertion_mock :: string
  issues :: "string list"
  difficulty_mock :: string

definition mock_data :: "(string \<times> mock_entry) list" where
  "mock_data =
     [(''accessibility'',
        \<lparr> assertion_mock = ''The checkout button has sufficient color contrast (WCAG AA)'',
          issues = [''Button contrast ratio is 2.1:1, below WCAG AA requirement of 4.5:1''],
          difficulty_mock = ''medium'' \<rparr>),
      (''layout'',
        \<lparr> assertion_mock = ''The navigation menu is visible without scrolling'',
          issues = [''Navigation menu is pushed below fold due to large hero image''],
          difficulty_mock = ''easy'' \<rparr>),
      (''responsiveness'',
        \<lparr> assertion_mock = ''The form fields are fully visible on mobile (375px width)'',
          issues = [''Input labels are cut off by parent container overflow''],
          difficulty_mock = ''medium'' \<rparr>),
      (''ux-dark-patterns'',
        \<lparr> assertion_mock = ''The unsubscribe button is as prominent as the subscribe button'',
          issues = [''Unsubscribe button is hidden in footer with 8px font size''],
          difficulty_mock = ''hard'' \<rparr>),
      (''security'',
        \<lparr> assertion_mock = ''The password input field obscures entered characters'',
          issues = [''Password field shows plain text characters''],
          difficulty_mock = ''easy'' \<rparr>)]"

subsection \<open>String formatting\<close>

text \<open>
  \<^verbatim>\<open>{i+1}\<close> in an f-string is the decimal numeral of a non-negative integer, and
  \<^verbatim>\<open>{i+1:03d}\<close> is the same numeral padded with zeros on the left to three characters
  (a longer numeral is kept whole).
\<close>

definition digit_char :: "nat \<Rightarrow> char" where
  "digit_char d = ''0123456789'' ! d"

fun decimal :: "nat \<Rightarrow> string" where
  "decimal n = (if n < 10 then [digit_char n] else decimal (n div 10) @ [digit_char (n mod 10)])"

declare decimal.simps [simp del]

definition format_03d :: "nat \<Rightarrow> string" where
  "format_03d n = replicate (3 - length (decimal n)) CHR ''0'' @ decimal n"

subsection \<open>\<open>generate_mock_examples\<close> and \<open>generate_mock_example\<close>\<close>

text \<open>
  The loop \<^verbatim>\<open>for i in range(count)\<close> runs over the positions \<open>[0..<nat cnt]\<close>, none
  when the count is not positive. \<open>now k\<close> is the text of the \<open>k\<close>-th reading of the
  clock (\<^verbatim>\<open>datetime.now().isoformat()\<close>) in the call, one reading for each example.
  \<^verbatim>\<open>mock_data[category]\<close> raises \<^verbatim>\<open>KeyError\<close> for a key outside the table.
\<close>

fun mock_loop :: "(nat \<Rightarrow> string) \<Rightarrow> nat list \<Rightarrow> entry list \<Rightarrow> error + entry list" where
  "mock_loop now [] acc = Inr acc"
| "mock_loop now (i # rest) acc =
     (let category = categories ! (i mod length categories)
      in case map_of mock_data category of
           None \<Rightarrow> Inl KeyError
         | Some data \<Rightarrow>
             mock_loop now rest
               (acc @ [Some
                 \<lparr> id_ex = ''example_'' @ format_03d (i + 1),
                   screenshot_path =
                     ''benchmarks/screenshots/'' @ category @ ''_'' @ decimal (i + 1) @ ''.png'',
                   assertion = JStr (assertion_mock data),
                   ground_truth =
                     \<lparr> verdict = False, expected_issues = JArr (map JStr (issues data)) \<rparr>,
                   metadata =
                     \<lparr> category = category, difficulty = JStr (difficulty_mock data),
                       created_at = now i \<rparr> \<rparr>]))"

definition generate_mock_examples :: "(nat \<Rightarrow> string) \<Rightarrow> int \<Rightarrow> error + entry list" where
  "generate_mock_examples now cnt = mock_loop now [0..<nat cnt] []"

text \<open>
  \<^verbatim>\<open>generate_mock_example(index, category)\<close> reads neither parameter: it returns the
  first element of \<^verbatim>\<open>generate_mock_examples(1)\<close>.
\<close>

definition generate_mock_example :: "(nat \<Rightarrow> string) \<Rightarrow> int \<Rightarrow> string \<Rightarrow> error + entry" where
  "generate_mock_example now index category' =
     (case generate_mock_examples now 1 of
        Inl err \<Rightarrow> Inl err
      | Inr mock_list \<Rightarrow> Inr (case mock_list of [] \<Rightarrow> None | x # _ \<Rightarrow> x))"

subsection \<open>\<open>generate_synthetic_examples\<close>\<close>

text \<open>
  The external service is a parameter: \<open>client i c\<close> is the outcome of the request at
  position \<open>i\<close> for category \<open>c\<close>, once decoded by \<^verbatim>\<open>json.loads\<close>, and \<open>None\<close> when
  the request, the access to the first content block or the decoding raises. A decoded
  object lists its bindings, each key once. The three subscripts \<^verbatim>\<open>data["assertion"]\<close>,
  \<^verbatim>\<open>data["expected_issues"]\<close> and \<^verbatim>\<open>data["difficulty"]\<close> raise unless the decoded value
  is an object that holds the key; every exception of the \<^verbatim>\<open>try\<close> block reaches the
  handler before anything is appended, so the block either yields the three values or
  fails as a whole.
\<close>

definition try_body :: "json option \<Rightarrow> (json \<times> json \<times> json) option" where
  "try_body response =
     (case response of
        Some (JObj data) \<Rightarrow>
          (case map_of data ''assertion'' of
             None \<Rightarrow> None
           | Some a \<Rightarrow>
               (case map_of data ''expected_issues'' of
                  None \<Rightarrow> None
                | Some e \<Rightarrow>
                    (case map_of data ''difficulty'' of
                       None \<Rightarrow> None
                     | Some d \<Rightarrow> Some (a, e, d))))
      | _ \<Rightarrow> None)"

text \<open>
  The loop of the external strategy. The handler appends the result of
  \<^verbatim>\<open>generate_mock_example(i+1, category)\<close>, whose clock reading is the one of position
  \<open>i\<close>.
\<close>

fun synthetic_loop ::
  "(nat \<Rightarrow> string \<Rightarrow> json option) \<Rightarrow> (nat \<Rightarrow> string) \<Rightarrow> nat list \<Rightarrow> entry list \<Rightarrow> error + entry list" where
  "synthetic_loop client now [] acc = Inr acc"
| "synthetic_loop client now (i # rest) acc =
     (let category = categories ! (i mod length categories)
      in case try_body (client i category) of
           Some (a, e, d) \<Rightarrow>
             synthetic_loop client now rest
               (acc @ [Some
                 \<lparr> id_ex = ''example_'' @ format_03d (i + 1),
                   screenshot_path =
                     ''benchmarks/screenshots/'' @ category @ ''_'' @ decimal (i + 1) @ ''.png'',
                   assertion = a,
                   ground_truth = \<lparr> verdict = False, expected_issues = e \<rparr>,
                   metadata = \<lparr> category = category, difficulty = d, created_at = now i \<rparr> \<rparr>])
         | None \<Rightarrow>
             (case generate_mock_example (\<lambda>k. now (i + k)) (int i + 1) category of
                Inl err \<Rightarrow> Inl err
              | Inr x \<Rightarrow> synthetic_loop client now rest (acc @ [x])))"

text \<open>
  \<^verbatim>\<open>if not api_key\<close> holds for an unset variable and for the empty string.
\<close>

definition generate_synthetic_examples ::
  "string option \<Rightarrow> (nat \<Rightarrow> string \<Rightarrow> json option) \<Rightarrow> (nat \<Rightarrow> string) \<Rightarrow> int \<Rightarrow> error + entry list" where
  "generate_synthetic_examples api_key client now cnt =
     (if api_key = None \<or> api_key = Some [] then generate_mock_examples now cnt
      else synthetic_loop client now [0..<nat cnt] [])"

section \<open>Reference definitions and test inputs\<close>

text \<open>
  The join as the specification words it: for each example in dataset order, the first
  prediction whose \<open>example_id\<close> equals the identifier of the example; an example
  without one yields nothing. The result is the list of pairs of ground-truth verdict and
  predicted verdict.
\<close>

fun join_spec :: "example list \<Rightarrow> prediction list \<Rightarrow> (bool \<times> bool) list" where
  "join_spec [] ps = []"
| "join_spec (e # es) ps =
     (case find (\<lambda>r. example_id r = id_ex e) ps of
        None \<Rightarrow> join_spec es ps
      | Some r \<Rightarrow> (verdict (ground_truth e), predicted_verdict r) # join_spec es ps)"

text \<open>
  The predictions that remain when every prediction whose identifier occurred earlier in
  the list (or in \<open>seen\<close>) is dropped.
\<close>

fun first_occurrences :: "string list \<Rightarrow> prediction list \<Rightarrow> prediction list" where
  "first_occurrences seen [] = []"
| "first_occurrences seen (r # rs) =
     (if example_id r \<in> set seen then first_occurrences seen rs
      else r # first_occurrences (example_id r # seen) rs)"

text \<open>Both verdicts occur among the matched ground-truth and predicted verdicts.\<close>

definition both_classes :: "bool list \<Rightarrow> bool list \<Rightarrow> bool" where
  "both_classes y_true y_pred \<longleftrightarrow>
     False \<in> set y_true \<union> set y_pred \<and> True \<in> set y_true \<union> set y_pred"

text \<open>
  Documents for concrete inputs: an example, a dataset and a prediction with the fields
  the evaluator reads set as given and fixed values for the others.
\<close>

definition mk_example :: "string \<Rightarrow> bool \<Rightarrow> example" where
  "mk_example eid v =
     \<lparr> id_ex = eid, screenshot_path = [], assertion = JStr [],
       ground_truth = \<lparr> verdict = v, expected_issues = JArr [] \<rparr>,
       metadata = \<lparr> category = ''layout'', difficulty = JStr ''easy'', created_at = [] \<rparr> \<rparr>"

definition mk_dataset :: "example list \<Rightarrow> dataset" where
  "mk_dataset es =
     \<lparr> version = ''1.0'', created_at_ds = [], total_examples_ds = int (length es), examples = es \<rparr>"

definition mk_prediction :: "string \<Rightarrow> bool \<Rightarrow> prediction" where
  "mk_prediction eid v = \<lparr> example_id = eid, predicted_verdict = v \<rparr>"

text \<open>An entry that is an example whose ground-truth verdict is false.\<close>

definition labelled_false :: "entry \<Rightarrow> bool" where
  "labelled_false x = (case x of None \<Rightarrow> False | Some e \<Rightarrow> \<not> verdict (ground_truth e))"

text \<open>A decoded response of the external service that holds the three fields.\<close>

definition sample_response :: json where
  "sample_response =
     JObj [(''assertion'', JStr ''The page title is visible''),
           (''expected_issues'', JArr [JStr ''Title is clipped'']),
           (''difficulty'', JStr ''hard'')]"

text \<open>The number that a string of decimal digits denotes.\<close>

definition digit_value :: "char \<Rightarrow> nat" where
  "digit_value c = of_char c - 48"

definition decimal_value :: "string \<Rightarrow> nat" where
  "decimal_value s = foldl (\<lambda>a c. 10 * a + digit_value c) 0 s"

section \<open>The join\<close>

lemma next_match_find: "next_match ps eid = find (\<lambda>r. example_id r = eid) ps"
  by (induction ps) auto

lemma next_match_None_iff: "next_match ps eid = None \<longleftrightarrow> eid \<notin> example_id ` set ps"
  by (induction ps) auto

lemma next_match_SomeD: "next_match ps eid = Some r \<Longrightarrow> r \<in> set ps \<and> example_id r = eid"
  by (induction ps) (auto split: if_splits)

lemma join_loop_acc:
  "join_loop es ps (yt, yp) =
     (yt @ map fst (join_spec es ps), yp @ map snd (join_spec es ps))"
  by (induction es arbitrary: yt yp) (auto simp: next_match_find split: option.splits)

lemma join_loop_spec:
  "join_loop es ps ([], []) = (map fst (join_spec es ps), map snd (join_spec es ps))"
  using join_loop_acc [of es ps "[]" "[]"] by simp

lemma join_spec_cong:
  "(\<And>e. e \<in> set es \<Longrightarrow> next_match ps (id_ex e) = next_match ps' (id_ex e)) \<Longrightarrow>
   join_spec es ps = join_spec es ps'"
  by (induction es) (auto simp: next_match_find split: option.splits)

lemma evaluate_results_join_eq:
  "join_spec (examples ds) (predictions rs) = join_spec (examples ds') (predictions rs') \<Longrightarrow>
   evaluate_results ds rs = evaluate_results ds' rs'"
  by (simp add: evaluate_results_def join_loop_spec)

lemma next_match_first_occurrences:
  "next_match (first_occurrences seen ps) eid =
     (if eid \<in> set seen then None else next_match ps eid)"
  by (induction seen ps rule: first_occurrences.induct) auto

lemma distinct_first_occurrences:
  "distinct (map example_id (first_occurrences seen ps)) \<and>
   example_id ` set (first_occurrences seen ps) \<inter> set seen = {}"
  by (induction seen ps rule: first_occurrences.induct) auto

lemma next_match_filter:
  "P eid \<Longrightarrow> next_match (filter (\<lambda>r. P (example_id r)) ps) eid = next_match ps eid"
  by (induction ps) auto

lemma next_match_distinct:
  "distinct (map example_id ps) \<Longrightarrow> r \<in> set ps \<Longrightarrow> next_match ps (example_id r) = Some r"
  by (induction ps) (auto simp: image_iff)

lemma next_match_perm:
  assumes "mset ps' = mset ps" and "distinct (map example_id ps)"
  shows "next_match ps' eid = next_match ps eid"
proof (cases "eid \<in> example_id ` set ps")
  case False
  moreover have "set ps' = set ps" using assms(1) by (rule mset_eq_setD)
  ultimately have "next_match ps eid = None" and "next_match ps' eid = None"
    by (simp_all add: next_match_None_iff)
  then show ?thesis by simp
next
  case True
  then obtain r where r: "r \<in> set ps" "example_id r = eid" by auto
  have s: "set ps' = set ps" using assms(1) by (rule mset_eq_setD)
  have "mset (map example_id ps') = mset (map example_id ps)"
    using assms(1) by simp
  then have d: "distinct (map example_id ps')"
    using assms(2) by (metis mset_eq_imp_distinct_iff)
  have "next_match ps eid = Some r"
    using next_match_distinct [OF assms(2) r(1)] r(2) by simp
  moreover have "next_match ps' eid = Some r"
    using next_match_distinct [OF d, of r] r s by simp
  ultimately show ?thesis by simp
qed

lemma find_None_iff_ids:
  "find (\<lambda>r. example_id r = eid) (ps :: prediction list) = None \<longleftrightarrow> eid \<notin> example_id ` set ps"
  using next_match_None_iff [of ps eid] by (simp add: next_match_find)

lemma join_spec_skip:
  "join_spec (filter (\<lambda>e. id_ex e \<in> example_id ` set ps) es) ps = join_spec es ps"
proof (induction es)
  case Nil
  show ?case by simp
next
  case (Cons e es)
  show ?case
  proof (cases "id_ex e \<in> example_id ` set ps")
    case True
    with Cons show ?thesis by (simp split: option.splits)
  next
    case False
    then have "find (\<lambda>r. example_id r = id_ex e) ps = None"
      by (simp add: find_None_iff_ids)
    with False Cons show ?thesis by simp
  qed
qed

lemma length_join_spec:
  "length (join_spec es ps) = length (filter (\<lambda>e. id_ex e \<in> example_id ` set ps) es)"
proof (induction es)
  case Nil
  show ?case by simp
next
  case (Cons e es)
  show ?case
  proof (cases "find (\<lambda>r. example_id r = id_ex e) ps")
    case None
    then have "id_ex e \<notin> example_id ` set ps" by (simp add: find_None_iff_ids)
    with None Cons show ?thesis by simp
  next
    case (Some r)
    then have "id_ex e \<in> example_id ` set ps"
      using find_None_iff_ids [of "id_ex e" ps] by simp
    with Some Cons show ?thesis by simp
  qed
qed

lemma length_join_spec_le_examples: "length (join_spec es ps) \<le> length es"
  by (simp add: length_join_spec)

lemma length_join_spec_le_predictions:
  assumes "distinct (map id_ex es)"
  shows "length (join_spec es ps) \<le> length ps"
proof -
  let ?fs = "filter (\<lambda>e. id_ex e \<in> example_id ` set ps) es"
  have "distinct (map id_ex ?fs)" using assms by (rule distinct_map_filter)
  then have "length ?fs = card (id_ex ` set ?fs)"
    by (metis distinct_card length_map set_map)
  also have "\<dots> \<le> card (example_id ` set ps)"
    by (rule card_mono) auto
  also have "\<dots> \<le> length ps"
    by (metis card_length length_map set_map)
  finally show ?thesis by (simp add: length_join_spec)
qed

section \<open>The metrics\<close>

lemma ravel_confusion_matrix_both:
  "both_classes yt yp \<Longrightarrow>
   ravel (confusion_matrix yt yp) =
     [int (count_pairs False False yt yp), int (count_pairs False True yt yp),
      int (count_pairs True False yt yp), int (count_pairs True True yt yp)]"
  by (simp add: both_classes_def ravel_def confusion_matrix_def unique_labels_def)

lemma ravel_confusion_matrix_single:
  "\<not> both_classes yt yp \<Longrightarrow> length (ravel (confusion_matrix yt yp)) \<le> 1"
  by (auto simp: both_classes_def ravel_def confusion_matrix_def unique_labels_def)

lemma evaluate_results_empty:
  "join_spec (examples ds) (predictions rs) = [] \<Longrightarrow>
   evaluate_results ds rs =
     Inr \<lparr> accuracy = 0, precision = 0, recall = 0, f1_score = 0,
           true_positives = 0, false_positives = 0, true_negatives = 0,
           false_negatives = 0, total_examples = 0 \<rparr>"
  by (simp add: evaluate_results_def join_loop_spec)

lemma evaluate_results_both:
  assumes "join_spec (examples ds) (predictions rs) = js" and "js \<noteq> []"
    and "both_classes (map fst js) (map snd js)"
  shows "evaluate_results ds rs =
     Inr \<lparr> accuracy = accuracy_score (map fst js) (map snd js),
           precision = precision_score (map fst js) (map snd js),
           recall = recall_score (map fst js) (map snd js),
           f1_score = f1_score_fn (map fst js) (map snd js),
           true_positives = int (count_pairs True True (map fst js) (map snd js)),
           false_positives = int (count_pairs False True (map fst js) (map snd js)),
           true_negatives = int (count_pairs False False (map fst js) (map snd js)),
           false_negatives = int (count_pairs True False (map fst js) (map snd js)),
           total_examples = int (length js) \<rparr>"
  using assms
  by (simp add: evaluate_results_def join_loop_spec ravel_confusion_matrix_both Let_def)

lemma evaluate_results_single:
  assumes "join_spec (examples ds) (predictions rs) = js" and "js \<noteq> []"
    and "\<not> both_classes (map fst js) (map snd js)"
  shows "evaluate_results ds rs = Inl ValueError"
proof -
  have "length (ravel (confusion_matrix (map fst js) (map snd js))) \<le> 1"
    using assms(3) by (rule ravel_confusion_matrix_single)
  then have "(case ravel (confusion_matrix (map fst js) (map snd js)) of
               [tn, fp, fn, tp] \<Rightarrow> Inr (f tn fp fn tp) | _ \<Rightarrow> Inl ValueError) = Inl ValueError"
    for f :: "int \<Rightarrow> int \<Rightarrow> int \<Rightarrow> int \<Rightarrow> report"
    by (auto split: list.splits)
  then show ?thesis
    using assms(1,2) by (simp add: evaluate_results_def join_loop_spec Let_def)
qed

lemma count_pairs_filter:
  "count_pairs t p (map fst js) (map snd js) = length (filter (\<lambda>(a, b). a = t \<and> b = p) js)"
  by (simp add: count_pairs_def zip_map_fst_snd)

lemma count_pairs_total:
  "count_pairs True True (map fst js) (map snd js) + count_pairs False True (map fst js) (map snd js)
     + count_pairs False False (map fst js) (map snd js)
     + count_pairs True False (map fst js) (map snd js) = length js"
  unfolding count_pairs_filter by (induction js) auto

lemma count_pairs_agree:
  "length (filter (\<lambda>(a, b). a = b) js) =
     count_pairs True True (map fst js) (map snd js) + count_pairs False False (map fst js) (map snd js)"
  unfolding count_pairs_filter by (induction js) auto

lemma accuracy_score_counts:
  "accuracy_score (map fst js) (map snd js) =
     of_nat (count_pairs True True (map fst js) (map snd js)
             + count_pairs False False (map fst js) (map snd js)) / of_nat (length js)"
  by (simp add: accuracy_score_def zip_map_fst_snd count_pairs_agree)

lemma evaluate_results_Inr:
  assumes "evaluate_results ds rs = Inr rep"
    and "js = join_spec (examples ds) (predictions rs)"
  shows "true_positives rep = int (count_pairs True True (map fst js) (map snd js))"
    and "false_positives rep = int (count_pairs False True (map fst js) (map snd js))"
    and "true_negatives rep = int (count_pairs False False (map fst js) (map snd js))"
    and "false_negatives rep = int (count_pairs True False (map fst js) (map snd js))"
    and "total_examples rep = int (length js)"
    and "js \<noteq> [] \<Longrightarrow> accuracy rep = accuracy_score (map fst js) (map snd js)"
proof -
  have "(js = [] \<and> rep = \<lparr> accuracy = 0, precision = 0, recall = 0, f1_score = 0,
           true_positives = 0, false_positives = 0, true_negatives = 0,
           false_negatives = 0, total_examples = 0 \<rparr>) \<or>
        (js \<noteq> [] \<and> rep = \<lparr> accuracy = accuracy_score (map fst js) (map snd js),
           precision = precision_score (map fst js) (map snd js),
           recall = recall_score (map fst js) (map snd js),
           f1_score = f1_score_fn (map fst js) (map snd js),
           true_positives = int (count_pairs True True (map fst js) (map snd js)),
           false_positives = int (count_pairs False True (map fst js) (map snd js)),
           true_negatives = int (count_pairs False False (map fst js) (map snd js)),
           false_negatives = int (count_pairs True False (map fst js) (map snd js)),
           total_examples = int (length js) \<rparr>)"
  proof (cases "js = []")
    case True
    then show ?thesis
      using assms evaluate_results_empty [of ds rs] by simp
  next
    case False
    show ?thesis
    proof (cases "both_classes (map fst js) (map snd js)")
      case True
      then show ?thesis
        using assms False evaluate_results_both [of ds rs js] by simp
    next
      case single: False
      then show ?thesis
        using assms False evaluate_results_single [of ds rs js] by simp
    qed
  qed
  then show "true_positives rep = int (count_pairs True True (map fst js) (map snd js))"
    and "false_positives rep = int (count_pairs False True (map fst js) (map snd js))"
    and "true_negatives rep = int (count_pairs False False (map fst js) (map snd js))"
    and "false_negatives rep = int (count_pairs True False (map fst js) (map snd js))"
    and "total_examples rep = int (length js)"
    and "js \<noteq> [] \<Longrightarrow> accuracy rep = accuracy_score (map fst js) (map snd js)"
    by (auto simp: count_pairs_def)
qed

section \<open>Properties of the evaluator\<close>

text \<open>
  C1. The claim: when the matched pairs are not empty and the matched ground-truth
  verdicts (or the matched predicted verdicts) hold one class only, \<open>evaluate_results\<close>
  returns a report, with the rates by the zero-denominator rule and the counts of the
  absent class 0; three examples of verdict false, all predicted false, give accuracy 1,
  precision 0, recall 0, TP = FP = FN = 0 and TN = 3.

  On this input the code returns no report. All six verdicts are false, the confusion
  matrix is built over the one label that occurs and has a single entry, and unpacking
  it into four names raises \<^verbatim>\<open>ValueError\<close>.
\<close>

theorem evaluate_results_all_false_raises:
  "evaluate_results
     (mk_dataset [mk_example ''a'' False, mk_example ''b'' False, mk_example ''c'' False])
     \<lparr> predictions =
         [mk_prediction ''a'' False, mk_prediction ''b'' False, mk_prediction ''c'' False] \<rparr>
   = Inl ValueError"
  by (simp add: evaluate_results_def confusion_matrix_def unique_labels_def ravel_def
      mk_dataset_def mk_example_def mk_prediction_def)

text \<open>
  C4. \<open>evaluate_results\<close> matches each example, in dataset order, to the first
  prediction that carries its identifier (the two label lists are those of the join as
  the specification words it). An example without a prediction is skipped: leaving such
  examples out of the dataset changes neither the label lists nor the outcome.
  Predictions after the first for an identifier are ignored: dropping them changes
  neither. A prediction whose identifier occurs in no example is ignored: dropping it
  changes neither, so that it raises nothing, and the \<open>total_examples\<close> of a report is
  the number of examples that have a prediction. Nothing of this needs the identifiers
  of the dataset to be unique.
\<close>

theorem evaluate_results_first_match:
  "join_loop (examples ds) (predictions rs) ([], []) =
     (map fst (join_spec (examples ds) (predictions rs)),
      map snd (join_spec (examples ds) (predictions rs)))
   \<and> join_loop (filter (\<lambda>e. id_ex e \<in> example_id ` set (predictions rs)) (examples ds))
        (predictions rs) ([], [])
      = join_loop (examples ds) (predictions rs) ([], [])
   \<and> evaluate_results
        (ds\<lparr>examples := filter (\<lambda>e. id_ex e \<in> example_id ` set (predictions rs)) (examples ds)\<rparr>)
        rs
      = evaluate_results ds rs
   \<and> join_loop (examples ds) (first_occurrences [] (predictions rs)) ([], [])
      = join_loop (examples ds) (predictions rs) ([], [])
   \<and> evaluate_results ds (rs\<lparr>predictions := first_occurrences [] (predictions rs)\<rparr>)
      = evaluate_results ds rs
   \<and> join_loop (examples ds)
        (filter (\<lambda>r. example_id r \<in> id_ex ` set (examples ds)) (predictions rs)) ([], [])
      = join_loop (examples ds) (predictions rs) ([], [])
   \<and> evaluate_results ds
        (rs\<lparr>predictions :=
              filter (\<lambda>r. example_id r \<in> id_ex ` set (examples ds)) (predictions rs)\<rparr>)
      = evaluate_results ds rs
   \<and> (\<forall>rep. evaluate_results ds rs = Inr rep \<longrightarrow>
         total_examples rep =
           int (length (filter (\<lambda>e. id_ex e \<in> example_id ` set (predictions rs)) (examples ds))))"
proof -
  let ?es = "examples ds" and ?ps = "predictions rs"
  have skip: "join_spec (filter (\<lambda>e. id_ex e \<in> example_id ` set ?ps) ?es) ?ps = join_spec ?es ?ps"
    by (rule join_spec_skip)
  have dup: "join_spec ?es (first_occurrences [] ?ps) = join_spec ?es ?ps"
    by (rule join_spec_cong) (simp add: next_match_first_occurrences)
  have stray: "join_spec ?es (filter (\<lambda>r. example_id r \<in> id_ex ` set ?es) ?ps) = join_spec ?es ?ps"
  proof (rule join_spec_cong)
    fix e
    assume "e \<in> set ?es"
    then have "id_ex e \<in> id_ex ` set ?es"
      by simp
    then show "next_match (filter (\<lambda>r. example_id r \<in> id_ex ` set ?es) ?ps) (id_ex e)
        = next_match ?ps (id_ex e)"
      by (rule next_match_filter [where P = "\<lambda>i. i \<in> id_ex ` set ?es"])
  qed
  have total: "total_examples rep =
      int (length (filter (\<lambda>e. id_ex e \<in> example_id ` set ?ps) ?es))"
    if "evaluate_results ds rs = Inr rep" for rep
    using evaluate_results_Inr(5) [OF that refl] by (simp add: length_join_spec)
  have e1: "evaluate_results
      (ds\<lparr>examples := filter (\<lambda>e. id_ex e \<in> example_id ` set ?ps) ?es\<rparr>) rs
      = evaluate_results ds rs"
    by (rule evaluate_results_join_eq) (simp add: skip)
  have e2: "evaluate_results ds (rs\<lparr>predictions := first_occurrences [] ?ps\<rparr>)
      = evaluate_results ds rs"
    by (rule evaluate_results_join_eq) (simp add: dup)
  have e3: "evaluate_results ds
      (rs\<lparr>predictions := filter (\<lambda>r. example_id r \<in> id_ex ` set ?es) ?ps\<rparr>)
      = evaluate_results ds rs"
    by (rule evaluate_results_join_eq) (simp add: stray)
  have j0: "join_loop ?es ?ps ([], []) = (map fst (join_spec ?es ?ps), map snd (join_spec ?es ?ps))"
    by (rule join_loop_spec)
  have j1: "join_loop (filter (\<lambda>e. id_ex e \<in> example_id ` set ?ps) ?es) ?ps ([], [])
      = join_loop ?es ?ps ([], [])"
    by (simp only: join_loop_spec skip)
  have j2: "join_loop ?es (first_occurrences [] ?ps) ([], []) = join_loop ?es ?ps ([], [])"
    by (simp only: join_loop_spec dup)
  have j3: "join_loop ?es (filter (\<lambda>r. example_id r \<in> id_ex ` set ?es) ?ps) ([], [])
      = join_loop ?es ?ps ([], [])"
    by (simp only: join_loop_spec stray)
  from j0 j1 e1 j2 e2 j3 e3 total show ?thesis
    by blast
qed

theorem evaluate_results_first_match_witness:
  "evaluate_results
     (mk_dataset [mk_example ''e1'' True, mk_example ''e2'' False, mk_example ''e3'' True])
     \<lparr> predictions =
         [mk_prediction ''zz'' False, mk_prediction ''e3'' False, mk_prediction ''e1'' True,
          mk_prediction ''e3'' True] \<rparr>
   = Inr \<lparr> accuracy = 1 / 2, precision = 1, recall = 1 / 2, f1_score = 2 / 3,
           true_positives = 1, false_positives = 0, true_negatives = 0,
           false_negatives = 1, total_examples = 2 \<rparr>
   \<and> total_examples
        \<lparr> accuracy = 1 / 2, precision = 1, recall = 1 / 2, f1_score = 2 / 3,
          true_positives = 1, false_positives = 0, true_negatives = 0,
          false_negatives = 1, total_examples = 2 \<rparr>
      = int (length (filter (\<lambda>e. id_ex e \<in> {''zz'', ''e3'', ''e1''})
          [mk_example ''e1'' True, mk_example ''e2'' False, mk_example ''e3'' True]))"
proof -
  have run: "evaluate_results
     (mk_dataset [mk_example ''e1'' True, mk_example ''e2'' False, mk_example ''e3'' True])
     \<lparr> predictions =
         [mk_prediction ''zz'' False, mk_prediction ''e3'' False, mk_prediction ''e1'' True,
          mk_prediction ''e3'' True] \<rparr>
   = Inr \<lparr> accuracy = 1 / 2, precision = 1, recall = 1 / 2, f1_score = 2 / 3,
           true_positives = 1, false_positives = 0, true_negatives = 0,
           false_negatives = 1, total_examples = 2 \<rparr>"
    by (simp add: evaluate_results_def accuracy_score_def precision_score_def recall_score_def
        f1_score_fn_def zero_division_def count_pairs_def confusion_matrix_def unique_labels_def
        ravel_def mk_dataset_def mk_example_def mk_prediction_def)
  show ?thesis
    using run
      evaluate_results_first_match
        [of "mk_dataset [mk_example ''e1'' True, mk_example ''e2'' False, mk_example ''e3'' True]"
            "\<lparr> predictions =
                [mk_prediction ''zz'' False, mk_prediction ''e3'' False, mk_prediction ''e1'' True,
                 mk_prediction ''e3'' True] \<rparr>"]
    by (simp add: mk_dataset_def mk_example_def mk_prediction_def)
qed

text \<open>
  C5. When no identifier of the dataset is the identifier of a prediction (as when there
  are no predictions at all), \<open>evaluate_results\<close> returns the report whose four rates
  are 0, whose four counts are 0 and whose \<open>total_examples\<close> is 0.
\<close>

theorem evaluate_results_no_overlap:
  assumes "id_ex ` set (examples ds) \<inter> example_id ` set (predictions rs) = {}"
  shows "evaluate_results ds rs =
     Inr \<lparr> accuracy = 0, precision = 0, recall = 0, f1_score = 0,
           true_positives = 0, false_positives = 0, true_negatives = 0,
           false_negatives = 0, total_examples = 0 \<rparr>"
proof -
  have "filter (\<lambda>e. id_ex e \<in> example_id ` set (predictions rs)) (examples ds) = []"
    using assms by (auto simp: filter_empty_conv)
  then have "length (join_spec (examples ds) (predictions rs)) = 0"
    by (simp add: length_join_spec)
  then have "join_spec (examples ds) (predictions rs) = []"
    by simp
  then show ?thesis
    by (rule evaluate_results_empty)
qed

theorem evaluate_results_no_overlap_witness:
  "id_ex ` set (examples (mk_dataset [mk_example ''e1'' True, mk_example ''e2'' False]))
     \<inter> example_id ` set (predictions \<lparr> predictions = [mk_prediction ''x9'' True] \<rparr>) = {}
   \<and> evaluate_results (mk_dataset [mk_example ''e1'' True, mk_example ''e2'' False])
        \<lparr> predictions = [mk_prediction ''x9'' True] \<rparr>
      = Inr \<lparr> accuracy = 0, precision = 0, recall = 0, f1_score = 0,
              true_positives = 0, false_positives = 0, true_negatives = 0,
              false_negatives = 0, total_examples = 0 \<rparr>
   \<and> evaluate_results (mk_dataset [mk_example ''e1'' True, mk_example ''e2'' False])
        \<lparr> predictions = [] \<rparr>
      = Inr \<lparr> accuracy = 0, precision = 0, recall = 0, f1_score = 0,
              true_positives = 0, false_positives = 0, true_negatives = 0,
              false_negatives = 0, total_examples = 0 \<rparr>"
proof -
  have h1: "id_ex ` set (examples (mk_dataset [mk_example ''e1'' True, mk_example ''e2'' False]))
     \<inter> example_id ` set (predictions \<lparr> predictions = [mk_prediction ''x9'' True] \<rparr>) = {}"
    by (simp add: mk_dataset_def mk_example_def mk_prediction_def)
  have h2: "id_ex ` set (examples (mk_dataset [mk_example ''e1'' True, mk_example ''e2'' False]))
     \<inter> example_id ` set (predictions \<lparr> predictions = [] \<rparr>) = {}"
    by simp
  show ?thesis
    using h1 evaluate_results_no_overlap [OF h1] evaluate_results_no_overlap [OF h2]
    by simp
qed

text \<open>
  C6. For the dataset of \<open>e1\<close> with verdict true and \<open>e2\<close> with verdict false, and the
  predictions true for \<open>e1\<close> and true for \<open>e2\<close>, \<open>evaluate_results\<close> returns TP = 1,
  FP = 1, TN = 0, FN = 0, accuracy 1/2, precision 1/2 and recall 1 (and F1 2/3, two
  examples scored), whatever the other fields of the documents. In every report that
  \<open>evaluate_results\<close> returns, TP counts the matched pairs predicted true and actually
  true, FP those predicted true and actually false, TN those predicted false and
  actually false, FN those predicted false and actually true.
\<close>

theorem evaluate_results_confusion_counts:
  "(map (\<lambda>e. (id_ex e, verdict (ground_truth e))) (examples ds) = [(''e1'', True), (''e2'', False)]
      \<and> map (\<lambda>r. (example_id r, predicted_verdict r)) (predictions rs)
          = [(''e1'', True), (''e2'', True)]
     \<longrightarrow> evaluate_results ds rs =
          Inr \<lparr> accuracy = 1 / 2, precision = 1 / 2, recall = 1, f1_score = 2 / 3,
                true_positives = 1, false_positives = 1, true_negatives = 0,
                false_negatives = 0, total_examples = 2 \<rparr>)
   \<and> (evaluate_results ds rs = Inr rep \<longrightarrow>
        true_positives rep =
          int (length (filter (\<lambda>(actual, predicted). predicted \<and> actual)
                 (join_spec (examples ds) (predictions rs))))
      \<and> false_positives rep =
          int (length (filter (\<lambda>(actual, predicted). predicted \<and> \<not> actual)
                 (join_spec (examples ds) (predictions rs))))
      \<and> true_negatives rep =
          int (length (filter (\<lambda>(actual, predicted). \<not> predicted \<and> \<not> actual)
                 (join_spec (examples ds) (predictions rs))))
      \<and> false_negatives rep =
          int (length (filter (\<lambda>(actual, predicted). \<not> predicted \<and> actual)
                 (join_spec (examples ds) (predictions rs)))))"
proof (intro conjI impI)
  assume inputs:
    "map (\<lambda>e. (id_ex e, verdict (ground_truth e))) (examples ds) = [(''e1'', True), (''e2'', False)]
      \<and> map (\<lambda>r. (example_id r, predicted_verdict r)) (predictions rs)
          = [(''e1'', True), (''e2'', True)]"
  then obtain a b where es: "examples ds = [a, b]"
    and a: "id_ex a = ''e1''" "verdict (ground_truth a) = True"
    and b: "id_ex b = ''e2''" "verdict (ground_truth b) = False"
    by (auto simp: map_eq_Cons_conv)
  from inputs obtain p q where ps: "predictions rs = [p, q]"
    and p: "example_id p = ''e1''" "predicted_verdict p = True"
    and q: "example_id q = ''e2''" "predicted_verdict q = True"
    by (auto simp: map_eq_Cons_conv)
  show "evaluate_results ds rs =
      Inr \<lparr> accuracy = 1 / 2, precision = 1 / 2, recall = 1, f1_score = 2 / 3,
            true_positives = 1, false_positives = 1, true_negatives = 0,
            false_negatives = 0, total_examples = 2 \<rparr>"
    by (simp add: evaluate_results_def accuracy_score_def precision_score_def recall_score_def
        f1_score_fn_def zero_division_def count_pairs_def confusion_matrix_def unique_labels_def
        ravel_def es ps a b p q)
next
  let ?js = "join_spec (examples ds) (predictions rs)"
  assume ret: "evaluate_results ds rs = Inr rep"
  have tt: "(\<lambda>(actual, predicted). predicted \<and> actual) = (\<lambda>(a, b). a = True \<and> b = True)"
    and ft: "(\<lambda>(actual, predicted). predicted \<and> \<not> actual) = (\<lambda>(a, b). a = False \<and> b = True)"
    and ff: "(\<lambda>(actual, predicted). \<not> predicted \<and> \<not> actual) = (\<lambda>(a, b). a = False \<and> b = False)"
    and tf: "(\<lambda>(actual, predicted). \<not> predicted \<and> actual) = (\<lambda>(a, b). a = True \<and> b = False)"
    by auto
  show "true_positives rep = int (length (filter (\<lambda>(actual, predicted). predicted \<and> actual) ?js))"
    using evaluate_results_Inr(1) [OF ret refl] by (simp only: tt count_pairs_filter)
  show "false_positives rep =
      int (length (filter (\<lambda>(actual, predicted). predicted \<and> \<not> actual) ?js))"
    using evaluate_results_Inr(2) [OF ret refl] by (simp only: ft count_pairs_filter)
  show "true_negatives rep =
      int (length (filter (\<lambda>(actual, predicted). \<not> predicted \<and> \<not> actual) ?js))"
    using evaluate_results_Inr(3) [OF ret refl] by (simp only: ff count_pairs_filter)
  show "false_negatives rep =
      int (length (filter (\<lambda>(actual, predicted). \<not> predicted \<and> actual) ?js))"
    using evaluate_results_Inr(4) [OF ret refl] by (simp only: tf count_pairs_filter)
qed

theorem evaluate_results_confusion_counts_witness:
  "map (\<lambda>e. (id_ex e, verdict (ground_truth e)))
       (examples (mk_dataset [mk_example ''e1'' True, mk_example ''e2'' False]))
     = [(''e1'', True), (''e2'', False)]
   \<and> map (\<lambda>r. (example_id r, predicted_verdict r))
       (predictions \<lparr> predictions = [mk_prediction ''e1'' True, mk_prediction ''e2'' True] \<rparr>)
     = [(''e1'', True), (''e2'', True)]
   \<and> evaluate_results (mk_dataset [mk_example ''e1'' True, mk_example ''e2'' False])
       \<lparr> predictions = [mk_prediction ''e1'' True, mk_prediction ''e2'' True] \<rparr>
     = Inr \<lparr> accuracy = 1 / 2, precision = 1 / 2, recall = 1, f1_score = 2 / 3,
             true_positives = 1, false_positives = 1, true_negatives = 0,
             false_negatives = 0, total_examples = 2 \<rparr>
   \<and> (1::int) =
       int (length (filter (\<lambda>(actual, predicted). predicted \<and> actual)
         (join_spec [mk_example ''e1'' True, mk_example ''e2'' False]
            [mk_prediction ''e1'' True, mk_prediction ''e2'' True])))
   \<and> (1::int) =
       int (length (filter (\<lambda>(actual, predicted). predicted \<and> \<not> actual)
         (join_spec [mk_example ''e1'' True, mk_example ''e2'' False]
            [mk_prediction ''e1'' True, mk_prediction ''e2'' True])))"
proof -
  have ex: "map (\<lambda>e. (id_ex e, verdict (ground_truth e)))
       (examples (mk_dataset [mk_example ''e1'' True, mk_example ''e2'' False]))
     = [(''e1'', True), (''e2'', False)]"
    by (simp add: mk_dataset_def mk_example_def)
  have pr: "map (\<lambda>r. (example_id r, predicted_verdict r))
       (predictions \<lparr> predictions = [mk_prediction ''e1'' True, mk_prediction ''e2'' True] \<rparr>)
     = [(''e1'', True), (''e2'', True)]"
    by (simp add: mk_prediction_def)
  note inst = evaluate_results_confusion_counts
    [of "mk_dataset [mk_example ''e1'' True, mk_example ''e2'' False]"
        "\<lparr> predictions = [mk_prediction ''e1'' True, mk_prediction ''e2'' True] \<rparr>"
        "\<lparr> accuracy = 1 / 2, precision = 1 / 2, recall = 1, f1_score = 2 / 3,
           true_positives = 1, false_positives = 1, true_negatives = 0,
           false_negatives = 0, total_examples = 2 \<rparr>"]
  have run: "evaluate_results (mk_dataset [mk_example ''e1'' True, mk_example ''e2'' False])
       \<lparr> predictions = [mk_prediction ''e1'' True, mk_prediction ''e2'' True] \<rparr>
     = Inr \<lparr> accuracy = 1 / 2, precision = 1 / 2, recall = 1, f1_score = 2 / 3,
             true_positives = 1, false_positives = 1, true_negatives = 0,
             false_negatives = 0, total_examples = 2 \<rparr>"
    using inst ex pr by blast
  have counts: "(1::int) =
       int (length (filter (\<lambda>(actual, predicted). predicted \<and> actual)
         (join_spec [mk_example ''e1'' True, mk_example ''e2'' False]
            [mk_prediction ''e1'' True, mk_prediction ''e2'' True])))
   \<and> (1::int) =
       int (length (filter (\<lambda>(actual, predicted). predicted \<and> \<not> actual)
         (join_spec [mk_example ''e1'' True, mk_example ''e2'' False]
            [mk_prediction ''e1'' True, mk_prediction ''e2'' True])))"
    using inst run by (simp add: mk_dataset_def)
  from ex pr run counts show ?thesis
    by blast
qed

text \<open>
  C8. When the identifiers of the predictions are pairwise distinct, \<open>evaluate_results\<close>
  gives the same outcome (the same report, all fields equal) on every permutation of the
  predictions. When identifiers are duplicated, the first occurrence of each in
  prediction order decides: two results documents whose first occurrences are the same
  up to order give the same outcome. Nothing of this needs the identifiers of the
  dataset to be unique.
\<close>

theorem evaluate_results_prediction_order:
  "(distinct (map example_id (predictions rs)) \<and> mset (predictions rs') = mset (predictions rs)
      \<longrightarrow> evaluate_results ds rs' = evaluate_results ds rs)
   \<and> (mset (first_occurrences [] (predictions rs')) = mset (first_occurrences [] (predictions rs))
      \<longrightarrow> evaluate_results ds rs' = evaluate_results ds rs)"
proof (intro conjI impI)
  assume h: "distinct (map example_id (predictions rs)) \<and> mset (predictions rs') = mset (predictions rs)"
  from h have m: "mset (predictions rs') = mset (predictions rs)"
    and d: "distinct (map example_id (predictions rs))"
    by simp_all
  have "join_spec (examples ds) (predictions rs') = join_spec (examples ds) (predictions rs)"
    by (rule join_spec_cong) (rule next_match_perm [OF m d])
  then show "evaluate_results ds rs' = evaluate_results ds rs"
    by (rule evaluate_results_join_eq)
next
  let ?f = "first_occurrences []"
  assume h: "mset (?f (predictions rs')) = mset (?f (predictions rs))"
  have d: "distinct (map example_id (?f (predictions rs)))"
    using distinct_first_occurrences [of "[]" "predictions rs"] by simp
  have "next_match (predictions rs') eid = next_match (predictions rs) eid" for eid
  proof -
    have "next_match (predictions rs') eid = next_match (?f (predictions rs')) eid"
      by (simp add: next_match_first_occurrences)
    also have "\<dots> = next_match (?f (predictions rs)) eid"
      using h d by (rule next_match_perm)
    also have "\<dots> = next_match (predictions rs) eid"
      by (simp add: next_match_first_occurrences)
    finally show ?thesis .
  qed
  then have "join_spec (examples ds) (predictions rs') = join_spec (examples ds) (predictions rs)"
    by (rule join_spec_cong)
  then show "evaluate_results ds rs' = evaluate_results ds rs"
    by (rule evaluate_results_join_eq)
qed

theorem evaluate_results_prediction_order_witness:
  "distinct (map example_id [mk_prediction ''e1'' True, mk_prediction ''e2'' True])
   \<and> mset [mk_prediction ''e2'' True, mk_prediction ''e1'' True]
       = mset [mk_prediction ''e1'' True, mk_prediction ''e2'' True]
   \<and> evaluate_results (mk_dataset [mk_example ''e1'' True, mk_example ''e2'' False])
       \<lparr> predictions = [mk_prediction ''e2'' True, mk_prediction ''e1'' True] \<rparr>
     = evaluate_results (mk_dataset [mk_example ''e1'' True, mk_example ''e2'' False])
       \<lparr> predictions = [mk_prediction ''e1'' True, mk_prediction ''e2'' True] \<rparr>
   \<and> mset (first_occurrences []
        [mk_prediction ''e1'' True, mk_prediction ''e2'' True, mk_prediction ''e1'' False])
       = mset (first_occurrences [] [mk_prediction ''e2'' True, mk_prediction ''e1'' True])
   \<and> evaluate_results (mk_dataset [mk_example ''e1'' True, mk_example ''e2'' False])
       \<lparr> predictions =
           [mk_prediction ''e1'' True, mk_prediction ''e2'' True, mk_prediction ''e1'' False] \<rparr>
     = evaluate_results (mk_dataset [mk_example ''e1'' True, mk_example ''e2'' False])
       \<lparr> predictions = [mk_prediction ''e2'' True, mk_prediction ''e1'' True] \<rparr>"
proof -
  have d: "distinct (map example_id [mk_prediction ''e1'' True, mk_prediction ''e2'' True])"
    by (simp add: mk_prediction_def)
  have m: "mset [mk_prediction ''e2'' True, mk_prediction ''e1'' True]
      = mset [mk_prediction ''e1'' True, mk_prediction ''e2'' True]"
    by (simp add: add.commute)
  have f: "mset (first_occurrences []
        [mk_prediction ''e1'' True, mk_prediction ''e2'' True, mk_prediction ''e1'' False])
      = mset (first_occurrences [] [mk_prediction ''e2'' True, mk_prediction ''e1'' True])"
    by (simp add: mk_prediction_def add.commute)
  have r1: "evaluate_results (mk_dataset [mk_example ''e1'' True, mk_example ''e2'' False])
       \<lparr> predictions = [mk_prediction ''e2'' True, mk_prediction ''e1'' True] \<rparr>
     = evaluate_results (mk_dataset [mk_example ''e1'' True, mk_example ''e2'' False])
       \<lparr> predictions = [mk_prediction ''e1'' True, mk_prediction ''e2'' True] \<rparr>"
    using d m
      evaluate_results_prediction_order
        [of "\<lparr> predictions = [mk_prediction ''e1'' True, mk_prediction ''e2'' True] \<rparr>"
            "\<lparr> predictions = [mk_prediction ''e2'' True, mk_prediction ''e1'' True] \<rparr>"
            "mk_dataset [mk_example ''e1'' True, mk_example ''e2'' False]"]
    by simp
  have r2: "evaluate_results (mk_dataset [mk_example ''e1'' True, mk_example ''e2'' False])
       \<lparr> predictions =
           [mk_prediction ''e1'' True, mk_prediction ''e2'' True, mk_prediction ''e1'' False] \<rparr>
     = evaluate_results (mk_dataset [mk_example ''e1'' True, mk_example ''e2'' False])
       \<lparr> predictions = [mk_prediction ''e2'' True, mk_prediction ''e1'' True] \<rparr>"
    using f
      evaluate_results_prediction_order
        [of "\<lparr> predictions = [mk_prediction ''e2'' True, mk_prediction ''e1'' True] \<rparr>"
            "\<lparr> predictions =
               [mk_prediction ''e1'' True, mk_prediction ''e2'' True, mk_prediction ''e1'' False] \<rparr>"
            "mk_dataset [mk_example ''e1'' True, mk_example ''e2'' False]"]
    by simp
  from d m r1 f r2 show ?thesis
    by blast
qed

text \<open>
  C9. The \<open>total_examples\<close> of a report returned by \<open>evaluate_results\<close> is at most the
  number of examples of the dataset and, when the identifiers of the dataset are
  pairwise distinct, at most the number of predictions.
\<close>

theorem evaluate_results_total_examples_le:
  assumes "evaluate_results ds rs = Inr rep"
  shows "total_examples rep \<le> int (length (examples ds))
    \<and> (distinct (map id_ex (examples ds)) \<longrightarrow>
         total_examples rep \<le> int (length (predictions rs)))"
proof -
  have total: "total_examples rep = int (length (join_spec (examples ds) (predictions rs)))"
    using evaluate_results_Inr(5) [OF assms refl] .
  have "total_examples rep \<le> int (length (examples ds))"
    using length_join_spec_le_examples [of "examples ds" "predictions rs"] total by simp
  moreover have "total_examples rep \<le> int (length (predictions rs))"
    if "distinct (map id_ex (examples ds))"
    using length_join_spec_le_predictions [OF that, of "predictions rs"] total by simp
  ultimately show ?thesis
    by blast
qed

theorem evaluate_results_total_examples_le_witness:
  "evaluate_results
     (mk_dataset [mk_example ''e1'' True, mk_example ''e2'' False, mk_example ''e3'' False,
                  mk_example ''e4'' True])
     \<lparr> predictions = [mk_prediction ''e4'' False, mk_prediction ''e2'' False] \<rparr>
   = Inr \<lparr> accuracy = 1 / 2, precision = 0, recall = 0, f1_score = 0,
           true_positives = 0, false_positives = 0, true_negatives = 1,
           false_negatives = 1, total_examples = 2 \<rparr>
   \<and> distinct (map id_ex [mk_example ''e1'' True, mk_example ''e2'' False,
        mk_example ''e3'' False, mk_example ''e4'' True])
   \<and> (2::int) \<le> int (length [mk_example ''e1'' True, mk_example ''e2'' False,
        mk_example ''e3'' False, mk_example ''e4'' True])
   \<and> (2::int) \<le> int (length [mk_prediction ''e4'' False, mk_prediction ''e2'' False])"
proof -
  have run: "evaluate_results
     (mk_dataset [mk_example ''e1'' True, mk_example ''e2'' False, mk_example ''e3'' False,
                  mk_example ''e4'' True])
     \<lparr> predictions = [mk_prediction ''e4'' False, mk_prediction ''e2'' False] \<rparr>
   = Inr \<lparr> accuracy = 1 / 2, precision = 0, recall = 0, f1_score = 0,
           true_positives = 0, false_positives = 0, true_negatives = 1,
           false_negatives = 1, total_examples = 2 \<rparr>"
    by (simp add: evaluate_results_def accuracy_score_def precision_score_def recall_score_def
        f1_score_fn_def zero_division_def count_pairs_def confusion_matrix_def unique_labels_def
        ravel_def mk_dataset_def mk_example_def mk_prediction_def)
  have ids: "distinct (map id_ex [mk_example ''e1'' True, mk_example ''e2'' False,
        mk_example ''e3'' False, mk_example ''e4'' True])"
    by (simp add: mk_example_def)
  have "(2::int) \<le> int (length [mk_example ''e1'' True, mk_example ''e2'' False,
        mk_example ''e3'' False, mk_example ''e4'' True])
   \<and> (2::int) \<le> int (length [mk_prediction ''e4'' False, mk_prediction ''e2'' False])"
    using evaluate_results_total_examples_le [OF run] ids
    by (simp add: mk_dataset_def)
  with run ids show ?thesis
    by blast
qed

text \<open>
  C10. Whenever \<open>evaluate_results\<close> returns a report, TP + FP + TN + FN equals
  \<open>total_examples\<close>, the four counts are not negative, and when \<open>total_examples\<close> is
  positive the accuracy is (TP + TN) / \<open>total_examples\<close>.
\<close>

theorem evaluate_results_report_invariant:
  assumes "evaluate_results ds rs = Inr rep"
  shows "true_positives rep + false_positives rep + true_negatives rep + false_negatives rep
           = total_examples rep
    \<and> 0 \<le> true_positives rep \<and> 0 \<le> false_positives rep
    \<and> 0 \<le> true_negatives rep \<and> 0 \<le> false_negatives rep
    \<and> (0 < total_examples rep \<longrightarrow>
         accuracy rep = of_int (true_positives rep + true_negatives rep)
                          / of_int (total_examples rep))"
proof -
  define js where "js = join_spec (examples ds) (predictions rs)"
  note r = evaluate_results_Inr [OF assms js_def]
  have sum: "true_positives rep + false_positives rep + true_negatives rep + false_negatives rep
      = total_examples rep"
    using count_pairs_total [of js] by (simp only: r flip: of_nat_add)
  have nonneg: "0 \<le> true_positives rep" "0 \<le> false_positives rep"
    "0 \<le> true_negatives rep" "0 \<le> false_negatives rep"
    by (simp_all only: r of_nat_0_le_iff)
  have acc: "accuracy rep = of_int (true_positives rep + true_negatives rep)
      / of_int (total_examples rep)" if "0 < total_examples rep"
  proof -
    from that have "js \<noteq> []"
      by (simp add: r(5))
    then have "accuracy rep = accuracy_score (map fst js) (map snd js)"
      by (rule r(6))
    then show ?thesis
      by (simp add: accuracy_score_counts r(1,3,5))
  qed
  from sum nonneg acc show ?thesis
    by blast
qed

theorem evaluate_results_report_invariant_witness:
  "evaluate_results
     (mk_dataset [mk_example ''e1'' True, mk_example ''e2'' False, mk_example ''e3'' True,
                  mk_example ''e4'' False, mk_example ''e5'' True])
     \<lparr> predictions =
         [mk_prediction ''e1'' True, mk_prediction ''e2'' True, mk_prediction ''e3'' False,
          mk_prediction ''e4'' False, mk_prediction ''e5'' True] \<rparr>
   = Inr \<lparr> accuracy = 3 / 5, precision = 2 / 3, recall = 2 / 3, f1_score = 2 / 3,
           true_positives = 2, false_positives = 1, true_negatives = 1,
           false_negatives = 1, total_examples = 5 \<rparr>
   \<and> (2::int) + 1 + 1 + 1 = 5
   \<and> (3 / 5 :: rat) = of_int (2 + 1) / of_int 5"
proof -
  have run: "evaluate_results
     (mk_dataset [mk_example ''e1'' True, mk_example ''e2'' False, mk_example ''e3'' True,
                  mk_example ''e4'' False, mk_example ''e5'' True])
     \<lparr> predictions =
         [mk_prediction ''e1'' True, mk_prediction ''e2'' True, mk_prediction ''e3'' False,
          mk_prediction ''e4'' False, mk_prediction ''e5'' True] \<rparr>
   = Inr \<lparr> accuracy = 3 / 5, precision = 2 / 3, recall = 2 / 3, f1_score = 2 / 3,
           true_positives = 2, false_positives = 1, true_negatives = 1,
           false_negatives = 1, total_examples = 5 \<rparr>"
    by (simp add: evaluate_results_def accuracy_score_def precision_score_def recall_score_def
        f1_score_fn_def zero_division_def count_pairs_def confusion_matrix_def unique_labels_def
        ravel_def mk_dataset_def mk_example_def mk_prediction_def)
  have "(2::int) + 1 + 1 + 1 = 5 \<and> (3 / 5 :: rat) = of_int (2 + 1) / of_int 5"
    using evaluate_results_report_invariant [OF run] by simp
  with run show ?thesis
    by blast
qed

section \<open>The synthesizer\<close>

subsection \<open>Both loops return, with one entry for each position\<close>

lemma mock_data_lookup:
  "\<exists>d. map_of mock_data (categories ! (i mod length categories)) = Some d"
proof -
  have "i mod 5 < 5" by simp
  then have "i mod 5 = 0 \<or> i mod 5 = 1 \<or> i mod 5 = 2 \<or> i mod 5 = 3 \<or> i mod 5 = 4"
    by arith
  then show ?thesis
    by (auto simp: categories_def mock_data_def)
qed

lemma mock_loop_labelled_false:
  "\<forall>x\<in>set acc. labelled_false x \<Longrightarrow>
   \<exists>xs. mock_loop now rest acc = Inr xs \<and> length xs = length acc + length rest
     \<and> (\<forall>x\<in>set xs. labelled_false x)"
proof (induction rest arbitrary: acc)
  case Nil
  then show ?case by simp
next
  case (Cons i rest)
  obtain d where d: "map_of mock_data (categories ! (i mod length categories)) = Some d"
    using mock_data_lookup by blast
  let ?new = "Some
      \<lparr> id_ex = ''example_'' @ format_03d (i + 1),
        screenshot_path =
          ''benchmarks/screenshots/'' @ categories ! (i mod length categories) @ ''_''
            @ decimal (i + 1) @ ''.png'',
        assertion = JStr (assertion_mock d),
        ground_truth = \<lparr> verdict = False, expected_issues = JArr (map JStr (issues d)) \<rparr>,
        metadata =
          \<lparr> category = categories ! (i mod length categories),
            difficulty = JStr (difficulty_mock d), created_at = now i \<rparr> \<rparr>"
  have "\<forall>x\<in>set (acc @ [?new]). labelled_false x"
    using Cons.prems by (simp add: labelled_false_def)
  from Cons.IH [OF this] d show ?case
    by (simp add: Let_def)
qed

lemma generate_mock_examples_labelled_false:
  "\<exists>xs. generate_mock_examples now cnt = Inr xs \<and> length xs = nat cnt
     \<and> (\<forall>x\<in>set xs. labelled_false x)"
  using mock_loop_labelled_false [of "[]" now "[0..<nat cnt]"]
  by (simp add: generate_mock_examples_def)

lemma generate_mock_example_eq:
  "generate_mock_example now index category' =
     Inr (Some
       \<lparr> id_ex = ''example_001'',
         screenshot_path = ''benchmarks/screenshots/accessibility_1.png'',
         assertion = JStr ''The checkout button has sufficient color contrast (WCAG AA)'',
         ground_truth =
           \<lparr> verdict = False,
             expected_issues =
               JArr [JStr ''Button contrast ratio is 2.1:1, below WCAG AA requirement of 4.5:1''] \<rparr>,
         metadata =
           \<lparr> category = ''accessibility'', difficulty = JStr ''medium'', created_at = now 0 \<rparr> \<rparr>)"
  by (simp add: generate_mock_example_def generate_mock_examples_def categories_def mock_data_def
      format_03d_def decimal.simps digit_char_def numeral_2_eq_2)

lemma synthetic_loop_labelled_false:
  "\<forall>x\<in>set acc. labelled_false x \<Longrightarrow>
   \<exists>xs. synthetic_loop client now rest acc = Inr xs \<and> length xs = length acc + length rest
     \<and> (\<forall>x\<in>set xs. labelled_false x)"
proof (induction rest arbitrary: acc)
  case Nil
  then show ?case by simp
next
  case (Cons i rest)
  let ?c = "categories ! (i mod length categories)"
  show ?case
  proof (cases "try_body (client i ?c)")
    case None
    obtain x where x: "generate_mock_example (\<lambda>k. now (i + k)) (int i + 1) ?c = Inr x"
      and lx: "labelled_false x"
      by (simp add: generate_mock_example_eq labelled_false_def)
    have "\<forall>y\<in>set (acc @ [x]). labelled_false y"
      using Cons.prems lx by simp
    from Cons.IH [OF this] None x show ?thesis
      by (simp add: Let_def)
  next
    case (Some t)
    obtain a e d where t: "t = (a, e, d)"
      by (cases t)
    let ?new = "Some
        \<lparr> id_ex = ''example_'' @ format_03d (i + 1),
          screenshot_path = ''benchmarks/screenshots/'' @ ?c @ ''_'' @ decimal (i + 1) @ ''.png'',
          assertion = a,
          ground_truth = \<lparr> verdict = False, expected_issues = e \<rparr>,
          metadata = \<lparr> category = ?c, difficulty = d, created_at = now i \<rparr> \<rparr>"
    have "\<forall>y\<in>set (acc @ [?new]). labelled_false y"
      using Cons.prems by (simp add: labelled_false_def)
    from Cons.IH [OF this] Some t show ?thesis
      by (simp add: Let_def)
  qed
qed

subsection \<open>Identifiers and categories of the deterministic strategy\<close>

lemma digit_value_digit_char: "d < 10 \<Longrightarrow> digit_value (digit_char d) = d"
proof -
  assume "d < 10"
  then have "d = 0 \<or> d = 1 \<or> d = 2 \<or> d = 3 \<or> d = 4 \<or> d = 5 \<or> d = 6 \<or> d = 7 \<or> d = 8 \<or> d = 9"
    by arith
  then show ?thesis
    by (auto simp: digit_value_def digit_char_def)
qed

lemma decimal_value_snoc: "decimal_value (s @ [c]) = 10 * decimal_value s + digit_value c"
  by (simp add: decimal_value_def)

lemma decimal_value_decimal: "decimal_value (decimal n) = n"
proof (induction n rule: decimal.induct)
  case (1 n)
  show ?case
  proof (cases "n < 10")
    case True
    then show ?thesis
      by (simp add: decimal.simps [of n] decimal_value_def digit_value_digit_char)
  next
    case False
    then have "decimal_value (decimal n) = 10 * decimal_value (decimal (n div 10)) + n mod 10"
      by (simp add: decimal.simps [of n] decimal_value_snoc digit_value_digit_char)
    with False 1 show ?thesis
      by simp
  qed
qed

lemma decimal_value_zeros: "decimal_value (replicate k CHR ''0'' @ s) = decimal_value s"
proof -
  have "foldl (\<lambda>a c. 10 * a + digit_value c) 0 (replicate k CHR ''0'') = 0"
    by (induction k) (simp_all add: digit_value_def)
  then show ?thesis
    by (simp add: decimal_value_def)
qed

lemma decimal_value_format_03d: "decimal_value (format_03d n) = n"
  by (simp add: format_03d_def decimal_value_zeros decimal_value_decimal)

lemma format_03d_inject: "format_03d m = format_03d n \<Longrightarrow> m = n"
  using decimal_value_format_03d by metis

lemma mock_loop_projection:
  "mock_loop now rest acc = Inr xs \<Longrightarrow>
   map (map_option (\<lambda>e. (id_ex e, category (metadata e)))) xs =
     map (map_option (\<lambda>e. (id_ex e, category (metadata e)))) acc
       @ map (\<lambda>i. Some (''example_'' @ format_03d (i + 1), categories ! (i mod length categories)))
           rest"
proof (induction rest arbitrary: acc)
  case Nil
  then show ?case by simp
next
  case (Cons i rest)
  obtain d where d: "map_of mock_data (categories ! (i mod length categories)) = Some d"
    using mock_data_lookup by blast
  from Cons.prems d show ?case
    by (simp add: Let_def Cons.IH)
qed

lemma count_positions:
  "k < 5 \<Longrightarrow> length (filter (\<lambda>i. i mod 5 = k) [0..<n]) = n div 5 + (if k < n mod 5 then 1 else 0)"
proof (induction n)
  case 0
  then show ?case by simp
next
  case (Suc n)
  have m: "n mod 5 < 5"
    by simp
  show ?case
  proof (cases "Suc (n mod 5) = 5")
    case True
    then have "Suc n mod 5 = 0" "Suc n div 5 = Suc (n div 5)" "n mod 5 = 4"
      by (simp_all add: mod_Suc div_Suc)
    with Suc show ?thesis
      by auto
  next
    case False
    then have "Suc n mod 5 = Suc (n mod 5)" "Suc n div 5 = n div 5"
      by (simp_all add: mod_Suc div_Suc)
    with Suc show ?thesis
      by auto
  qed
qed

lemma categories_nth_eq: "j < 5 \<Longrightarrow> k < 5 \<Longrightarrow> categories ! j = categories ! k \<longleftrightarrow> j = k"
proof -
  have "distinct categories" "length categories = 5"
    by (simp_all add: categories_def)
  then show "j < 5 \<Longrightarrow> k < 5 \<Longrightarrow> categories ! j = categories ! k \<longleftrightarrow> j = k"
    by (simp add: nth_eq_iff_index_eq)
qed

lemma count_category:
  assumes "k < 5"
  shows "count_list (map (\<lambda>i. categories ! (i mod length categories)) [0..<n]) (categories ! k)
    = n div 5 + (if k < n mod 5 then 1 else 0)"
proof -
  have len: "length categories = 5"
    by (simp add: categories_def)
  have "count_list (map (\<lambda>i. categories ! (i mod 5)) xs) (categories ! k)
      = length (filter (\<lambda>i. i mod 5 = k) xs)" for xs
    by (induction xs) (simp_all add: categories_nth_eq assms)
  then show ?thesis
    by (simp add: len count_positions assms)
qed

lemma generate_mock_examples_unique_balanced:
  "\<exists>xs. generate_mock_examples now cnt = Inr xs \<and> length xs = nat cnt
     \<and> distinct (map (map_option id_ex) xs)
     \<and> (\<forall>j<5. \<forall>k<5.
          count_list (map (map_option (category \<circ> metadata)) xs) (Some (categories ! j))
            \<le> count_list (map (map_option (category \<circ> metadata)) xs) (Some (categories ! k)) + 1)"
proof -
  obtain xs where run: "generate_mock_examples now cnt = Inr xs" and len: "length xs = nat cnt"
    using generate_mock_examples_labelled_false by blast
  let ?n = "nat cnt"
  have proj: "map (map_option (\<lambda>e. (id_ex e, category (metadata e)))) xs =
      map (\<lambda>i. Some (''example_'' @ format_03d (i + 1), categories ! (i mod length categories)))
        [0..<?n]"
    using mock_loop_projection [of now "[0..<?n]" "[]" xs] run
    by (simp add: generate_mock_examples_def)
  have "map (map_option id_ex) xs = map (map_option fst) (map (map_option (\<lambda>e. (id_ex e, category (metadata e)))) xs)"
    by (simp add: option.map_comp comp_def)
  then have ids: "map (map_option id_ex) xs = map (\<lambda>i. Some (''example_'' @ format_03d (i + 1))) [0..<?n]"
    by (simp add: proj)
  have "map (map_option (category \<circ> metadata)) xs = map (map_option snd) (map (map_option (\<lambda>e. (id_ex e, category (metadata e)))) xs)"
    by (simp add: option.map_comp comp_def)
  then have cats: "map (map_option (category \<circ> metadata)) xs
      = map Some (map (\<lambda>i. categories ! (i mod length categories)) [0..<?n])"
    by (simp add: proj)
  have "inj (\<lambda>i. Some (''example_'' @ format_03d (i + 1)))"
    by (rule injI) (auto dest: format_03d_inject)
  then have d: "distinct (map (map_option id_ex) xs)"
    by (simp add: ids distinct_map inj_on_def inj_def)
  have cnt_some: "count_list (map Some ys) (Some c) = count_list ys c" for ys :: "string list" and c
    by (induction ys) simp_all
  have cnt: "count_list (map (map_option (category \<circ> metadata)) xs) (Some (categories ! k))
      = ?n div 5 + (if k < ?n mod 5 then 1 else 0)" if "k < 5" for k
    unfolding cats cnt_some using that by (rule count_category)
  have bal: "count_list (map (map_option (category \<circ> metadata)) xs) (Some (categories ! j))
      \<le> count_list (map (map_option (category \<circ> metadata)) xs) (Some (categories ! k)) + 1"
    if "j < 5" "k < 5" for j k
    using that by (simp only: cnt) simp
  from run len d bal show ?thesis
    by blast
qed

lemma synthetic_loop_projection:
  "synthetic_loop client now rest acc = Inr xs \<Longrightarrow>
   map (map_option (\<lambda>e. (id_ex e, category (metadata e)))) xs =
     map (map_option (\<lambda>e. (id_ex e, category (metadata e)))) acc
       @ map (\<lambda>i. Some
              (if try_body (client i (categories ! (i mod length categories))) = None
               then (''example_001'', ''accessibility'')
               else (''example_'' @ format_03d (i + 1), categories ! (i mod length categories))))
           rest"
proof (induction rest arbitrary: acc)
  case Nil
  then show ?case by simp
next
  case (Cons i rest)
  let ?c = "categories ! (i mod length categories)"
  show ?case
  proof (cases "try_body (client i ?c)")
    case None
    with Cons.prems show ?thesis
      by (simp add: Let_def generate_mock_example_eq Cons.IH)
  next
    case (Some t)
    obtain a e d where "t = (a, e, d)"
      by (cases t)
    with Some Cons.prems show ?thesis
      by (simp add: Let_def Cons.IH)
  qed
qed

lemma positions_2: "[0..<nat 2] = [0, 1]"
  by (simp add: upt_rec)

lemma positions_3: "[0..<nat 3] = [0, 1, 2]"
  by (simp add: upt_rec)

section \<open>Properties of the synthesizer\<close>

text \<open>
  C2. The claim: in the external strategy, at every position \<open>i\<close> where the external call
  fails the substituted example carries the identifier \<open>example_NNN\<close> of position
  \<open>i + 1\<close> and the table entry of the category of position \<open>i\<close>.

  With three positions and a failure at position 1 only, the claim asks for
  \<open>example_002\<close> with the entry of \<open>layout\<close> in the middle. The code puts there
  \<open>example_001\<close> with the entry of \<open>accessibility\<close>: \<open>generate_mock_example\<close> passes
  neither its index nor its category on, and returns the first example of a fresh run of
  the deterministic strategy.
\<close>

theorem generate_synthetic_examples_fallback_ignores_position:
  "map_sum id (map (map_option (\<lambda>e. (id_ex e, category (metadata e), assertion e))))
     (generate_synthetic_examples (Some ''key'')
        (\<lambda>i c. if i = 1 then None else Some sample_response) (\<lambda>k. ''2026-01-01T00:00:00'') 3)
   = Inr [Some (''example_001'', ''accessibility'', JStr ''The page title is visible''),
          Some (''example_001'', ''accessibility'',
                JStr ''The checkout button has sufficient color contrast (WCAG AA)''),
          Some (''example_003'', ''responsiveness'', JStr ''The page title is visible'')]"
  unfolding generate_synthetic_examples_def positions_3
  by (simp add: generate_mock_example_eq try_body_def sample_response_def categories_def
      format_03d_def decimal.simps digit_char_def numeral_2_eq_2 Let_def)

text \<open>
  C3. The claim: for every count that is not negative, in either strategy, the result has
  exactly that many examples, pairwise distinct identifiers, and category frequencies
  that differ by at most 1.

  With two positions and both external calls failing, the code returns two entries, both
  with the identifier \<open>example_001\<close> and the category \<open>accessibility\<close>: the identifiers
  are not distinct, and \<open>accessibility\<close> occurs twice where \<open>layout\<close> does not occur.
  The length is right, and the deterministic strategy satisfies the whole claim
  (\<open>generate_mock_examples_unique_balanced\<close>).
\<close>

theorem generate_synthetic_examples_fallback_repeats:
  "\<exists>xs. generate_synthetic_examples (Some ''key'') (\<lambda>i c. None) (\<lambda>k. ''2026-01-01T00:00:00'') 2
          = Inr xs
     \<and> length xs = 2
     \<and> map (map_option id_ex) xs = [Some ''example_001'', Some ''example_001'']
     \<and> \<not> distinct (map (map_option id_ex) xs)
     \<and> count_list (map (map_option (category \<circ> metadata)) xs) (Some ''accessibility'') = 2
     \<and> count_list (map (map_option (category \<circ> metadata)) xs) (Some ''layout'') = 0"
proof -
  obtain xs where run: "generate_synthetic_examples (Some ''key'') (\<lambda>i c. None)
      (\<lambda>k. ''2026-01-01T00:00:00'') 2 = Inr xs" and len: "length xs = nat 2"
    using generate_synthetic_examples_def synthetic_loop_labelled_false
      [of "[]" "\<lambda>i c. None" "\<lambda>k. ''2026-01-01T00:00:00''" "[0..<nat 2]"]
    by auto
  from run have loop: "synthetic_loop (\<lambda>i c. None) (\<lambda>k. ''2026-01-01T00:00:00'') [0, 1] [] = Inr xs"
    unfolding generate_synthetic_examples_def positions_2
    by (simp del: synthetic_loop.simps)
  have proj: "map (map_option (\<lambda>e. (id_ex e, category (metadata e)))) xs
      = [Some (''example_001'', ''accessibility''), Some (''example_001'', ''accessibility'')]"
    using synthetic_loop_projection [OF loop] by (simp add: try_body_def)
  have "map (map_option id_ex) xs
      = map (map_option fst) (map (map_option (\<lambda>e. (id_ex e, category (metadata e)))) xs)"
    by (simp add: option.map_comp comp_def)
  then have ids: "map (map_option id_ex) xs = [Some ''example_001'', Some ''example_001'']"
    by (simp add: proj)
  have "map (map_option (category \<circ> metadata)) xs
      = map (map_option snd) (map (map_option (\<lambda>e. (id_ex e, category (metadata e)))) xs)"
    by (simp add: option.map_comp comp_def)
  then have cats: "map (map_option (category \<circ> metadata)) xs
      = [Some ''accessibility'', Some ''accessibility'']"
    by (simp add: proj)
  from run len ids cats show ?thesis
    by simp
qed

text \<open>
  C7. For every count and in both strategies, \<open>generate_synthetic_examples\<close> returns, one
  entry for each position, and every entry is an example whose ground-truth verdict is
  false.
\<close>

theorem generate_synthetic_examples_verdict_false:
  "\<exists>xs. generate_synthetic_examples api_key client now cnt = Inr xs \<and> length xs = nat cnt
     \<and> (\<forall>x\<in>set xs. \<exists>e. x = Some e \<and> verdict (ground_truth e) = False)"
proof -
  have "\<exists>xs. generate_synthetic_examples api_key client now cnt = Inr xs \<and> length xs = nat cnt
     \<and> (\<forall>x\<in>set xs. labelled_false x)"
  proof (cases "api_key = None \<or> api_key = Some []")
    case True
    then have "generate_synthetic_examples api_key client now cnt = generate_mock_examples now cnt"
      by (simp add: generate_synthetic_examples_def)
    then show ?thesis
      using generate_mock_examples_labelled_false [of now cnt]
      by simp
  next
    case False
    then have "generate_synthetic_examples api_key client now cnt
        = synthetic_loop client now [0..<nat cnt] []"
      by (auto simp: generate_synthetic_examples_def)
    then show ?thesis
      using synthetic_loop_labelled_false [of "[]" client now "[0..<nat cnt]"]
      by simp
  qed
  moreover have "labelled_false x \<longleftrightarrow> (\<exists>e. x = Some e \<and> verdict (ground_truth e) = False)" for x
    by (cases x) (simp_all add: labelled_false_def)
  ultimately show ?thesis
    by simp
qed

theorem generate_synthetic_examples_verdict_false_witness:
  "\<exists>xs x e.
     generate_synthetic_examples (Some ''key'')
       (\<lambda>i c. if i = 1 then None else Some sample_response) (\<lambda>k. ''2026-01-01T00:00:00'') 3
       = Inr xs
     \<and> length xs = 3 \<and> x \<in> set xs \<and> x = Some e \<and> verdict (ground_truth e) = False"
proof -
  obtain xs where run: "generate_synthetic_examples (Some ''key'')
       (\<lambda>i c. if i = 1 then None else Some sample_response) (\<lambda>k. ''2026-01-01T00:00:00'') 3
       = Inr xs"
    and len: "length xs = nat 3"
    and all: "\<forall>x\<in>set xs. \<exists>e. x = Some e \<and> verdict (ground_truth e) = False"
    using generate_synthetic_examples_verdict_false
      [of "Some ''key''" "\<lambda>i c. if i = 1 then None else Some sample_response"
          "\<lambda>k. ''2026-01-01T00:00:00''" 3]
    by blast
  from len have "xs \<noteq> []"
    by auto
  then have "hd xs \<in> set xs"
    by simp
  with all obtain e where "hd xs = Some e" "verdict (ground_truth e) = False"
    by blast
  with run len \<open>hd xs \<in> set xs\<close> show ?thesis
    by auto
qed

end
